theory Spec2Isabelle
  imports Main "HOL-Library.Sublist"
begin

section \<open>The diff tree\<close>

text \<open>
  The walker of \<^verbatim>\<open>levant/plan.go\<close> reads a job diff computed by the scheduler. The
  diff types are the scheduler client's (\<^verbatim>\<open>nomad.JobDiff\<close>, \<^verbatim>\<open>nomad.TaskGroupDiff\<close>,
  \<^verbatim>\<open>nomad.TaskDiff\<close>, \<^verbatim>\<open>nomad.ObjectDiff\<close>, \<^verbatim>\<open>nomad.FieldDiff\<close>); the model keeps the
  fields that \<^verbatim>\<open>plan.go\<close> reads, under the Go field names with a prefix for the
  owning type. A classification (\<^verbatim>\<open>Type\<close>) is a Go string and stays a string here, so
  that values outside the three known ones exist. The Go slices hold pointers; the model
  is a finite tree, that is, every pointer of the decoded response is taken to be
  non-nil and the structure acyclic.
\<close>

record FieldDiff =
  fd_Type :: string
  fd_Name :: string
  fd_Old :: string
  fd_New :: string

datatype ObjectDiff =
  ObjectDiff (od_Type: string) (od_Name: string)
    (od_Fields: "FieldDiff list") (od_Objects: "ObjectDiff list")

record TaskDiff =
  td_Type :: string
  td_Name :: string
  td_Objects :: "ObjectDiff list"

record TaskGroupDiff =
  tg_Type :: string
  tg_Name :: string
  tg_Objects :: "ObjectDiff list"
  tg_Tasks :: "TaskDiff list"

record JobDiff =
  jd_Type :: string
  jd_TaskGroups :: "TaskGroupDiff list"

record JobPlanResponse =
  Diff :: JobDiff

text \<open>
  Modelled from the spec: the three classification constants are initialised from the
  scheduler library (\<^verbatim>\<open>nomadStructs.DiffTypeAdded\<close>, \<^verbatim>\<open>DiffTypeEdited\<close>,
  \<^verbatim>\<open>DiffTypeNone\<close>), whose declarations are not part of this repository. The spec
  names them added, edited and none; the strings below are the library's spellings. The
  development uses only that the three are pairwise distinct.
\<close>

definition diffTypeAdded :: string where
  "diffTypeAdded = ''Added''"

definition diffTypeEdited :: string where
  "diffTypeEdited = ''Edited''"

definition diffTypeNone :: string where
  "diffTypeNone = ''None''"

section \<open>The log\<close>

text \<open>
  The logger is an append-only sink. A record carries its level, the error attached with
  \<^verbatim>\<open>Err\<close> (if any) and the message. Every function below returns the list of records it
  appends, in the order of emission.
\<close>

datatype level = Debug | Info | Error

record log_record =
  lr_level :: level
  lr_err :: "string option"
  lr_msg :: string

definition logDebug :: "string \<Rightarrow> log_record" where
  "logDebug m = \<lparr>lr_level = Debug, lr_err = None, lr_msg = m\<rparr>"

definition logInfo :: "string \<Rightarrow> log_record" where
  "logInfo m = \<lparr>lr_level = Info, lr_err = None, lr_msg = m\<rparr>"

definition logError :: "string option \<Rightarrow> string \<Rightarrow> log_record" where
  "logError e m = \<lparr>lr_level = Error, lr_err = e, lr_msg = m\<rparr>"

section \<open>Message formatting: \<^verbatim>\<open>logDiffObj\<close>\<close>

definition lEnd :: "string \<Rightarrow> string \<Rightarrow> string \<Rightarrow> string \<Rightarrow> string" where
  "lEnd objName fName fOld fNew =
     ''plan indicates change of '' @ objName @ '':'' @ fName @ '' from '' @ fOld @ '' to '' @ fNew"

definition lStart :: "string \<Rightarrow> string \<Rightarrow> string" where
  "lStart g t =
     (let s = (if g \<noteq> '''' then ''group '' @ g @ '' '' else '''')
      in if t \<noteq> '''' then s @ ''and task '' @ t @ '' '' else s)"

definition logLine :: "string \<Rightarrow> string \<Rightarrow> string \<Rightarrow> string \<Rightarrow> string \<Rightarrow> string \<Rightarrow> string" where
  "logLine g t objName fName fOld fNew =
     (if lStart g t \<noteq> '''' then lStart g t @ lEnd objName fName fOld fNew
      else lEnd objName fName fOld fNew)"

definition logDiffObj ::
  "string \<Rightarrow> string \<Rightarrow> string \<Rightarrow> string \<Rightarrow> string \<Rightarrow> string \<Rightarrow> log_record" where
  "logDiffObj g t objName fName fOld fNew =
     logInfo (''levant/plan: '' @ logLine g t objName fName fOld fNew)"

section \<open>The walker: \<^verbatim>\<open>recurseObjDiff\<close> and \<open>planDiff\<close>\<close>

text \<open>
  The loop over the fields of a leaf-shaped node: a field that is not edited is skipped
  (\<^verbatim>\<open>continue\<close>), an edited one is logged.
\<close>

fun fieldLoop :: "string \<Rightarrow> string \<Rightarrow> string \<Rightarrow> FieldDiff list \<Rightarrow> log_record list" where
  "fieldLoop g t objName [] = []"
| "fieldLoop g t objName (f # fs) =
     (if fd_Type f \<noteq> diffTypeEdited then fieldLoop g t objName fs
      else logDiffObj g t objName (fd_Name f) (fd_Old f) (fd_New f) # fieldLoop g t objName fs)"

text \<open>
  A \<^verbatim>\<open>range\<close> loop whose body is only a call of the walker appends the calls' records one
  after the other: the concatenation of the calls over the slice.
\<close>

fun recurseObjDiff :: "string \<Rightarrow> string \<Rightarrow> ObjectDiff \<Rightarrow> log_record list" where
  "recurseObjDiff g t (ObjectDiff ty nm fs os) =
     (if os = [] \<and> fs \<noteq> [] \<and> ty = diffTypeEdited
      then fieldLoop g t nm fs
      else concat (map (recurseObjDiff g t) os))"

text \<open>
  The loop over the tasks of a group. Its second result tells whether the body executed
  the \<^verbatim>\<open>return\<close> of \<^verbatim>\<open>planDiff\<close> (an edited task without objects), which ends the walk.
\<close>

fun taskLoop :: "string \<Rightarrow> TaskDiff list \<Rightarrow> log_record list \<times> bool" where
  "taskLoop g [] = ([], False)"
| "taskLoop g (t # ts) =
     (if td_Type t \<noteq> diffTypeEdited then taskLoop g ts
      else if td_Objects t = [] then ([], True)
      else (let out = concat (map (recurseObjDiff g (td_Name t)) (td_Objects t));
                (rest, returned) = taskLoop g ts
            in (out @ rest, returned)))"

fun groupLoop :: "TaskGroupDiff list \<Rightarrow> log_record list" where
  "groupLoop [] = []"
| "groupLoop (tg # tgs) =
     (if tg_Type tg \<noteq> diffTypeEdited then groupLoop tgs
      else (let objs = concat (map (recurseObjDiff (tg_Name tg) '''') (tg_Objects tg));
                (tasks, returned) = taskLoop (tg_Name tg) (tg_Tasks tg)
            in if returned then objs @ tasks else objs @ tasks @ groupLoop tgs))"

definition planDiff :: "JobDiff \<Rightarrow> log_record list" where
  "planDiff plan = groupLoop (jd_TaskGroups plan)"

section \<open>The decision: \<^verbatim>\<open>plan\<close>\<close>

text \<open>
  The request to the scheduler is the environment's: its outcome, the response and the
  error (\<open>None\<close> for Go's \<^verbatim>\<open>nil\<close>), is the input of the model. The result is the list of
  records logged and the boolean returned.
\<close>

definition msgTrigger :: string where
  "msgTrigger = ''levant/plan: triggering Nomad plan''"

definition msgUnable :: string where
  "msgUnable = ''levant/plan: unable to run a job plan''"

definition msgNewJob :: string where
  "msgNewJob = ''levant/plan: job is a new addition to the cluster''"

definition msgNoChanges :: string where
  "msgNoChanges = ''levant/plan: no changes detected for job''"

definition plan :: "JobPlanResponse \<Rightarrow> string option \<Rightarrow> log_record list \<times> bool" where
  "plan resp err =
     (if err \<noteq> None then ([logDebug msgTrigger, logError err msgUnable], False)
      else if jd_Type (Diff resp) = diffTypeAdded
        then ([logDebug msgTrigger, logInfo msgNewJob], True)
      else if jd_Type (Diff resp) = diffTypeNone
        then ([logDebug msgTrigger, logError None msgNoChanges], False)
      else if jd_Type (Diff resp) = diffTypeEdited
        then (logDebug msgTrigger # planDiff (Diff resp), True)
      else ([logDebug msgTrigger], True))"

section \<open>Notions used to state the properties\<close>

text \<open>
  The detail record of a field under a context, as \<^verbatim>\<open>recurseObjDiff\<close> passes it to
  \<^verbatim>\<open>logDiffObj\<close>.
\<close>

definition detailRecord :: "string \<Rightarrow> string \<Rightarrow> string \<Rightarrow> FieldDiff \<Rightarrow> log_record" where
  "detailRecord g t objName f = logDiffObj g t objName (fd_Name f) (fd_Old f) (fd_New f)"

text \<open>
  The spec's rule for the fields of one node, written after the spec's words: a field of
  the node yields a detail record exactly when the node has no child objects, has one or
  more fields, is classified edited, and the field is classified edited; the records come
  in the declaration order of the fields.
\<close>

definition ownRecords :: "string \<Rightarrow> string \<Rightarrow> ObjectDiff \<Rightarrow> log_record list" where
  "ownRecords g t od =
     map (detailRecord g t (od_Name od))
       (filter (\<lambda>f. od_Objects od = [] \<and> od_Fields od \<noteq> [] \<and> od_Type od = diffTypeEdited
                     \<and> fd_Type f = diffTypeEdited)
          (od_Fields od))"

text \<open>
  The spec's declared order, written after the spec's words and without any early exit:
  task groups in sequence order; within a group the group-level objects before the
  tasks; tasks in sequence order; each task's objects in sequence order; child objects
  depth-first before sibling objects; fields in declaration order. Groups and tasks that
  are not edited contribute nothing.
\<close>

fun objectOrder :: "string \<Rightarrow> string \<Rightarrow> ObjectDiff \<Rightarrow> log_record list" where
  "objectOrder g t (ObjectDiff ty nm fs os) =
     ownRecords g t (ObjectDiff ty nm fs os) @ concat (map (objectOrder g t) os)"

definition taskOrder :: "string \<Rightarrow> TaskDiff \<Rightarrow> log_record list" where
  "taskOrder g t = concat (map (objectOrder g (td_Name t)) (td_Objects t))"

definition groupOrder :: "TaskGroupDiff \<Rightarrow> log_record list" where
  "groupOrder tg =
     concat (map (objectOrder (tg_Name tg) '''') (tg_Objects tg))
     @ concat (map (taskOrder (tg_Name tg))
         (filter (\<lambda>t. td_Type t = diffTypeEdited) (tg_Tasks tg)))"

definition declaredOrder :: "JobDiff \<Rightarrow> log_record list" where
  "declaredOrder d =
     concat (map groupOrder (filter (\<lambda>tg. tg_Type tg = diffTypeEdited) (jd_TaskGroups d)))"

text \<open>
  An edited task without objects inside an edited group: the condition under which
  \<^verbatim>\<open>planDiff\<close> executes its \<^verbatim>\<open>return\<close>.
\<close>

definition emptyEditedTask :: "TaskDiff \<Rightarrow> bool" where
  "emptyEditedTask t = (td_Type t = diffTypeEdited \<and> td_Objects t = [])"

definition returnsEarly :: "JobDiff \<Rightarrow> bool" where
  "returnsEarly d =
     list_ex (\<lambda>tg. tg_Type tg = diffTypeEdited \<and> list_ex emptyEditedTask (tg_Tasks tg))
       (jd_TaskGroups d)"

text \<open>
  The records by which \<^verbatim>\<open>plan\<close> itself reports the outcome (source lines 27, 36 and 42)
  are recognised by their messages.
\<close>

definition isOutcomeRecord :: "log_record \<Rightarrow> bool" where
  "isOutcomeRecord r = (lr_msg r \<in> set [msgUnable, msgNewJob, msgNoChanges])"

definition isInfo :: "log_record \<Rightarrow> bool" where
  "isInfo r = (lr_level r = Info)"

text \<open>The example tree of the spec: group \<open>cache\<close>, leaf object \<open>resources\<close>, field \<open>cpu\<close>.\<close>

definition exField :: FieldDiff where
  "exField = \<lparr>fd_Type = diffTypeEdited, fd_Name = ''cpu'', fd_Old = ''500'', fd_New = ''1000''\<rparr>"

definition exObject :: ObjectDiff where
  "exObject = ObjectDiff diffTypeEdited ''resources'' [exField] []"

definition exGroup :: TaskGroupDiff where
  "exGroup = \<lparr>tg_Type = diffTypeEdited, tg_Name = ''cache'', tg_Objects = [exObject], tg_Tasks = []\<rparr>"

definition exResp :: "string \<Rightarrow> TaskGroupDiff list \<Rightarrow> JobPlanResponse" where
  "exResp ty tgs = \<lparr>Diff = \<lparr>jd_Type = ty, jd_TaskGroups = tgs\<rparr>\<rparr>"

text \<open>
  The spec's scenario for the early return: a group with the edited task \<open>web\<close> that has
  no objects, followed by the independently edited group \<open>api\<close>.
\<close>

definition exEmptyTask :: TaskDiff where
  "exEmptyTask = \<lparr>td_Type = diffTypeEdited, td_Name = ''web'', td_Objects = []\<rparr>"

definition exWebGroup :: TaskGroupDiff where
  "exWebGroup =
     \<lparr>tg_Type = diffTypeEdited, tg_Name = ''frontend'', tg_Objects = [], tg_Tasks = [exEmptyTask]\<rparr>"

definition exApiGroup :: TaskGroupDiff where
  "exApiGroup =
     \<lparr>tg_Type = diffTypeEdited, tg_Name = ''api'', tg_Objects = [exObject], tg_Tasks = []\<rparr>"

text \<open>
  A node that is not edited above an edited leaf, a task carrying the leaf, and a group
  with both a group-level object and a task.
\<close>

definition exUneditedParent :: ObjectDiff where
  "exUneditedParent = ObjectDiff diffTypeNone ''update'' [exField] [exObject]"

definition exTask :: TaskDiff where
  "exTask = \<lparr>td_Type = diffTypeEdited, td_Name = ''redis'', td_Objects = [exObject]\<rparr>"

definition exFullGroup :: TaskGroupDiff where
  "exFullGroup =
     \<lparr>tg_Type = diffTypeEdited, tg_Name = ''cache'', tg_Objects = [exUneditedParent],
      tg_Tasks = [exTask]\<rparr>"

text \<open>A task and a task group that are not edited, each holding the edited leaf.\<close>

definition exUneditedTask :: TaskDiff where
  "exUneditedTask = \<lparr>td_Type = diffTypeNone, td_Name = ''redis'', td_Objects = [exObject]\<rparr>"

definition exUneditedGroup :: TaskGroupDiff where
  "exUneditedGroup =
     \<lparr>tg_Type = diffTypeNone, tg_Name = ''db'', tg_Objects = [exObject], tg_Tasks = [exTask]\<rparr>"

section \<open>Basic facts\<close>

lemma diffType_distinct [simp]:
  "diffTypeAdded \<noteq> diffTypeNone" "diffTypeNone \<noteq> diffTypeAdded"
  "diffTypeAdded \<noteq> diffTypeEdited" "diffTypeEdited \<noteq> diffTypeAdded"
  "diffTypeNone \<noteq> diffTypeEdited" "diffTypeEdited \<noteq> diffTypeNone"
  by (simp_all add: diffTypeAdded_def diffTypeNone_def diffTypeEdited_def)

section \<open>The walker's loops\<close>

lemma fieldLoop_map_filter:
  "fieldLoop g t n fs = map (detailRecord g t n) (filter (\<lambda>f. fd_Type f = diffTypeEdited) fs)"
  by (induction fs) (simp_all add: detailRecord_def)

lemma recurseObjDiff_own_children:
  "recurseObjDiff g t od = ownRecords g t od @ concat (map (recurseObjDiff g t) (od_Objects od))"
  by (cases od) (auto simp: ownRecords_def fieldLoop_map_filter filter_empty_conv)

lemma recurseObjDiff_objectOrder: "recurseObjDiff g t od = objectOrder g t od"
proof (induction g t od rule: objectOrder.induct)
  case (1 g t ty nm fs os)
  have "concat (map (recurseObjDiff g t) os) = concat (map (objectOrder g t) os)"
    using 1 by (simp cong: map_cong)
  then show ?case
    using recurseObjDiff_own_children [of g t "ObjectDiff ty nm fs os"] by simp
qed

lemma recurseObjDiff_objectOrder_fun: "recurseObjDiff g t = objectOrder g t"
  by (rule ext) (rule recurseObjDiff_objectOrder)

lemma taskLoop_snd: "snd (taskLoop g ts) = list_ex emptyEditedTask ts"
  by (induction ts) (auto simp: emptyEditedTask_def split: prod.splits)

lemma taskLoop_append:
  "taskLoop g (ts @ ts') =
     (if snd (taskLoop g ts) then taskLoop g ts
      else (fst (taskLoop g ts) @ fst (taskLoop g ts'), snd (taskLoop g ts')))"
  by (induction ts) (auto split: prod.splits)

lemma groupLoop_append_cong:
  "groupLoop xs = groupLoop ys \<Longrightarrow> groupLoop (pre @ xs) = groupLoop (pre @ ys)"
  by (induction pre) (simp_all add: Let_def split: prod.splits)

lemma taskLoop_empty_edited:
  "emptyEditedTask t \<Longrightarrow> taskLoop g (tpre @ t # tpost) = (fst (taskLoop g tpre), True)"
  by (cases "taskLoop g tpre") (simp add: taskLoop_append emptyEditedTask_def)

lemma taskLoop_skip:
  "td_Type t \<noteq> diffTypeEdited \<Longrightarrow> taskLoop g (tpre @ t # tpost) = taskLoop g (tpre @ tpost)"
  by (simp add: taskLoop_append)

lemma groupLoop_return:
  assumes "tg_Type tg = diffTypeEdited" "emptyEditedTask t" "tg_Tasks tg = tpre @ t # tpost"
  shows "groupLoop (pre @ tg # post) = groupLoop (pre @ [tg\<lparr>tg_Tasks := tpre\<rparr>])"
proof (rule groupLoop_append_cong)
  show "groupLoop (tg # post) = groupLoop [tg\<lparr>tg_Tasks := tpre\<rparr>]"
    using assms by (cases "taskLoop (tg_Name tg) tpre") (simp add: taskLoop_empty_edited Let_def)
qed

lemma groupLoop_skip:
  "tg_Type tg \<noteq> diffTypeEdited \<Longrightarrow> groupLoop (pre @ tg # post) = groupLoop (pre @ post)"
  by (rule groupLoop_append_cong) simp

lemma taskLoop_prefix:
  "prefix (fst (taskLoop g ts))
     (concat (map (taskOrder g) (filter (\<lambda>t. td_Type t = diffTypeEdited) ts)))"
  by (induction ts) (auto simp: taskOrder_def recurseObjDiff_objectOrder_fun split: prod.splits)

lemma taskLoop_complete:
  "\<not> list_ex emptyEditedTask ts \<Longrightarrow>
   fst (taskLoop g ts) = concat (map (taskOrder g) (filter (\<lambda>t. td_Type t = diffTypeEdited) ts))"
  by (induction ts)
     (auto simp: taskOrder_def emptyEditedTask_def recurseObjDiff_objectOrder_fun split: prod.splits)

lemma groupLoop_prefix:
  "prefix (groupLoop tgs)
     (concat (map groupOrder (filter (\<lambda>tg. tg_Type tg = diffTypeEdited) tgs)))"
proof (induction tgs)
  case Nil
  show ?case by simp
next
  case (Cons tg tgs)
  show ?case
  proof (cases "tg_Type tg = diffTypeEdited")
    case False
    with Cons show ?thesis by simp
  next
    case True
    obtain out r where tl: "taskLoop (tg_Name tg) (tg_Tasks tg) = (out, r)"
      by (cases "taskLoop (tg_Name tg) (tg_Tasks tg)")
    have p: "prefix out (concat (map (taskOrder (tg_Name tg))
                 (filter (\<lambda>t. td_Type t = diffTypeEdited) (tg_Tasks tg))))"
      using taskLoop_prefix [of "tg_Name tg" "tg_Tasks tg"] tl by simp
    show ?thesis
    proof (cases r)
      case True
      with \<open>tg_Type tg = diffTypeEdited\<close> tl p show ?thesis
        by (simp add: groupOrder_def recurseObjDiff_objectOrder_fun)
    next
      case False
      then have "\<not> list_ex emptyEditedTask (tg_Tasks tg)"
        using taskLoop_snd [of "tg_Name tg" "tg_Tasks tg"] tl by simp
      then have "out = concat (map (taskOrder (tg_Name tg))
                 (filter (\<lambda>t. td_Type t = diffTypeEdited) (tg_Tasks tg)))"
        using taskLoop_complete [of "tg_Tasks tg" "tg_Name tg"] tl by simp
      with \<open>tg_Type tg = diffTypeEdited\<close> tl False Cons show ?thesis
        by (simp add: groupOrder_def recurseObjDiff_objectOrder_fun)
    qed
  qed
qed

lemma groupLoop_complete:
  "\<not> list_ex (\<lambda>tg. tg_Type tg = diffTypeEdited \<and> list_ex emptyEditedTask (tg_Tasks tg)) tgs \<Longrightarrow>
   groupLoop tgs = concat (map groupOrder (filter (\<lambda>tg. tg_Type tg = diffTypeEdited) tgs))"
proof (induction tgs)
  case Nil
  show ?case by simp
next
  case (Cons tg tgs)
  show ?case
  proof (cases "tg_Type tg = diffTypeEdited")
    case False
    with Cons show ?thesis by simp
  next
    case True
    with Cons.prems have ne: "\<not> list_ex emptyEditedTask (tg_Tasks tg)" by simp
    obtain out r where tl: "taskLoop (tg_Name tg) (tg_Tasks tg) = (out, r)"
      by (cases "taskLoop (tg_Name tg) (tg_Tasks tg)")
    have r: "\<not> r" using taskLoop_snd [of "tg_Name tg" "tg_Tasks tg"] tl ne by simp
    have "out = concat (map (taskOrder (tg_Name tg))
                 (filter (\<lambda>t. td_Type t = diffTypeEdited) (tg_Tasks tg)))"
      using taskLoop_complete [OF ne, of "tg_Name tg"] tl by simp
    with True tl r Cons show ?thesis
      by (simp add: groupOrder_def recurseObjDiff_objectOrder_fun)
  qed
qed

section \<open>Messages\<close>

lemma logLine_cases:
  "logLine g t obj f old new =
     (if g \<noteq> '''' \<and> t \<noteq> '''' then ''group '' @ g @ '' and task '' @ t @ '' '' @ lEnd obj f old new
      else if g \<noteq> '''' then ''group '' @ g @ '' '' @ lEnd obj f old new
      else if t \<noteq> '''' then ''and task '' @ t @ '' '' @ lEnd obj f old new
      else lEnd obj f old new)"
  by (simp add: logLine_def lStart_def)

lemma logDiffObj_not_outcome: "\<not> isOutcomeRecord (logDiffObj g t obj f old new)"
  by (simp add: isOutcomeRecord_def logDiffObj_def logInfo_def logLine_cases lEnd_def
      msgUnable_def msgNewJob_def msgNoChanges_def)

lemma logDiffObj_level: "lr_level (logDiffObj g t obj f old new) = Info"
  by (simp add: logDiffObj_def logInfo_def)

lemma fieldLoop_no_outcome: "filter isOutcomeRecord (fieldLoop g t n fs) = []"
  by (induction fs) (simp_all add: logDiffObj_not_outcome)

lemma objectOrder_no_outcome: "filter isOutcomeRecord (objectOrder g t od) = []"
  by (induction g t od rule: objectOrder.induct)
     (simp add: ownRecords_def detailRecord_def filter_empty_conv logDiffObj_not_outcome)

lemma declaredOrder_no_outcome: "filter isOutcomeRecord (declaredOrder d) = []"
  by (simp add: declaredOrder_def groupOrder_def taskOrder_def filter_empty_conv
      filter_concat objectOrder_no_outcome)

lemma planDiff_no_outcome: "filter isOutcomeRecord (planDiff d) = []"
proof -
  have "prefix (planDiff d) (declaredOrder d)"
    by (simp add: planDiff_def declaredOrder_def groupLoop_prefix)
  then obtain zs where "declaredOrder d = planDiff d @ zs"
    by (auto simp: prefix_def)
  then have "filter isOutcomeRecord (planDiff d) @ filter isOutcomeRecord zs = []"
    using declaredOrder_no_outcome [of d] by simp
  then show ?thesis by simp
qed

lemma outcome_records [simp]:
  "\<not> isOutcomeRecord (logDebug msgTrigger)"
  "isOutcomeRecord (logError e msgUnable)"
  "isOutcomeRecord (logInfo msgNewJob)"
  "isOutcomeRecord (logError e msgNoChanges)"
  by (simp_all add: isOutcomeRecord_def logDebug_def logError_def logInfo_def msgTrigger_def
      msgUnable_def msgNewJob_def msgNoChanges_def)

lemma isInfo_records [simp]:
  "\<not> isInfo (logDebug m)" "isInfo (logInfo m)" "\<not> isInfo (logError e m)"
  by (simp_all add: isInfo_def logDebug_def logError_def logInfo_def)

lemma logDiffObj_neq_plan_records:
  "logDiffObj g t obj f old new \<noteq> logDebug msgTrigger"
  "logDiffObj g t obj f old new \<noteq> logInfo msgNewJob"
proof -
  show "logDiffObj g t obj f old new \<noteq> logDebug msgTrigger"
    by (simp add: logDiffObj_def logInfo_def logDebug_def)
  have "isOutcomeRecord (logInfo msgNewJob)" by simp
  then show "logDiffObj g t obj f old new \<noteq> logInfo msgNewJob"
    using logDiffObj_not_outcome [of g t obj f old new] by auto
qed

lemma exResp_sel [simp]:
  "jd_Type (Diff (exResp ty tgs)) = ty" "jd_TaskGroups (Diff (exResp ty tgs)) = tgs"
  by (simp_all add: exResp_def)

lemma exGroup_records:
  "planDiff (Diff (exResp ty [exGroup]))
     = [logDiffObj ''cache'' [] ''resources'' ''cpu'' ''500'' ''1000'']"
  by (simp add: planDiff_def exGroup_def exObject_def exField_def)

lemma exFullGroup_records:
  "planDiff (Diff (exResp ty [exFullGroup]))
     = [logDiffObj ''cache'' [] ''resources'' ''cpu'' ''500'' ''1000'',
        logDiffObj ''cache'' ''redis'' ''resources'' ''cpu'' ''500'' ''1000'']"
  by (simp add: planDiff_def exFullGroup_def exTask_def exUneditedParent_def exObject_def
      exField_def)

lemma exOrder_records:
  "declaredOrder (Diff (exResp ty [exFullGroup, exApiGroup]))
     = [logDiffObj ''cache'' '''' ''resources'' ''cpu'' ''500'' ''1000'',
        logDiffObj ''cache'' ''redis'' ''resources'' ''cpu'' ''500'' ''1000'',
        logDiffObj ''api'' '''' ''resources'' ''cpu'' ''500'' ''1000'']"
  by (simp add: declaredOrder_def groupOrder_def taskOrder_def exFullGroup_def exApiGroup_def
      exTask_def exUneditedParent_def exObject_def exField_def ownRecords_def detailRecord_def)

section \<open>Failure of the plan request\<close>

text \<open>
  Claim C10. When the plan request itself returns an error, the decision logs an error
  record (carrying the error, after the debug record that announces the request) and
  returns false. Whatever the response holds is not looked at, and no detail record is
  emitted: the result is the same for every response.
\<close>

theorem plan_request_error:
  "plan resp (Some e) = ([logDebug msgTrigger, logError (Some e) msgUnable], False)
   \<and> plan resp (Some e) = plan resp' (Some e)"
  by (simp add: plan_def)

section \<open>The early return of the walk\<close>

text \<open>
  Claim C1. For a job diff classified edited: when an edited group holds an edited task
  whose objects are empty, the whole walk stops there. The records emitted are exactly
  those of the tree cut off just before that task, so nothing is emitted for any later
  task of the group or for any later group; the log of the decision is the debug record
  followed by the records of the cut tree.
\<close>

theorem empty_edited_task_stops_walk:
  assumes "jd_Type (Diff resp) = diffTypeEdited"
    and "jd_TaskGroups (Diff resp) = pre @ tg # post"
    and "tg_Type tg = diffTypeEdited"
    and "tg_Tasks tg = tpre @ t # tpost"
    and "td_Type t = diffTypeEdited" and "td_Objects t = []"
  shows "planDiff (Diff resp) = planDiff ((Diff resp)\<lparr>jd_TaskGroups := pre @ [tg\<lparr>tg_Tasks := tpre\<rparr>]\<rparr>)
    \<and> fst (plan resp None) =
        logDebug msgTrigger # planDiff ((Diff resp)\<lparr>jd_TaskGroups := pre @ [tg\<lparr>tg_Tasks := tpre\<rparr>]\<rparr>)"
proof -
  have e: "emptyEditedTask t"
    using assms(5,6) by (simp add: emptyEditedTask_def)
  have "groupLoop (pre @ tg # post) = groupLoop (pre @ [tg\<lparr>tg_Tasks := tpre\<rparr>])"
    using assms(3) e assms(4) by (rule groupLoop_return)
  then have "planDiff (Diff resp) = planDiff ((Diff resp)\<lparr>jd_TaskGroups := pre @ [tg\<lparr>tg_Tasks := tpre\<rparr>]\<rparr>)"
    using assms(2) by (simp add: planDiff_def)
  then show ?thesis
    using assms(1) by (simp add: plan_def)
qed

theorem empty_edited_task_stops_walk_witness:
  "jd_Type (Diff (exResp diffTypeEdited [exGroup, exWebGroup, exApiGroup])) = diffTypeEdited
   \<and> jd_TaskGroups (Diff (exResp diffTypeEdited [exGroup, exWebGroup, exApiGroup]))
       = [exGroup] @ exWebGroup # [exApiGroup]
   \<and> tg_Type exWebGroup = diffTypeEdited
   \<and> tg_Tasks exWebGroup = [] @ exEmptyTask # []
   \<and> td_Type exEmptyTask = diffTypeEdited \<and> td_Objects exEmptyTask = []
   \<and> planDiff (Diff (exResp diffTypeEdited [exGroup, exWebGroup, exApiGroup]))
       = [logDiffObj ''cache'' '''' ''resources'' ''cpu'' ''500'' ''1000'']
   \<and> fst (plan (exResp diffTypeEdited [exGroup, exWebGroup, exApiGroup]) None)
       = [logDebug msgTrigger, logDiffObj ''cache'' '''' ''resources'' ''cpu'' ''500'' ''1000'']"
  using empty_edited_task_stops_walk [of "exResp diffTypeEdited [exGroup, exWebGroup, exApiGroup]"
      "[exGroup]" exWebGroup "[exApiGroup]" "[]" exEmptyTask "[]"]
  by (simp add: exResp_def exWebGroup_def exEmptyTask_def exGroup_def exObject_def exField_def
      planDiff_def)
section \<open>The boolean returned\<close>

text \<open>
  Claim C2. For every job diff (the request having succeeded), the decision returns
  false if and only if the top-level classification is none. For the classification
  edited it returns true together with whatever the walker emitted, be it nothing or
  many records.
\<close>

theorem plan_false_iff_none:
  "snd (plan resp None) = (jd_Type (Diff resp) \<noteq> diffTypeNone)
   \<and> (jd_Type (Diff resp) = diffTypeEdited \<longrightarrow>
        plan resp None = (logDebug msgTrigger # planDiff (Diff resp), True))"
  by (simp add: plan_def)

theorem plan_false_iff_none_witness:
  "jd_Type (Diff (exResp diffTypeEdited [exGroup])) = diffTypeEdited
   \<and> plan (exResp diffTypeEdited [exGroup]) None
       = ([logDebug msgTrigger, logDiffObj ''cache'' '''' ''resources'' ''cpu'' ''500'' ''1000''], True)
   \<and> jd_Type (Diff (exResp diffTypeEdited [])) = diffTypeEdited
   \<and> plan (exResp diffTypeEdited []) None = ([logDebug msgTrigger], True)
   \<and> snd (plan (exResp diffTypeNone [exGroup]) None) = False"
  using plan_false_iff_none [of "exResp diffTypeEdited [exGroup]"]
    plan_false_iff_none [of "exResp diffTypeEdited []"]
    plan_false_iff_none [of "exResp diffTypeNone [exGroup]"]
  by (simp add: exResp_def exGroup_def exObject_def exField_def planDiff_def)
section \<open>The rule for an object node\<close>

text \<open>
  Claim C3. An object node reached under a context emits a detail record for one of its
  fields exactly when the node has no child objects, has at least one field, is
  classified edited and the field is classified edited (\<open>ownRecords\<close>); everything else
  it emits comes from its children. Hence the fields of a node with child objects are
  never emitted, whatever they are; an edited leaf emits its edited fields in order and
  skips the others; a leaf that is not edited emits nothing.
\<close>

theorem object_rule:
  "recurseObjDiff g t od = ownRecords g t od @ concat (map (recurseObjDiff g t) (od_Objects od))
   \<and> (od_Objects od \<noteq> [] \<longrightarrow>
        recurseObjDiff g t od = concat (map (recurseObjDiff g t) (od_Objects od))
        \<and> recurseObjDiff g t od
            = recurseObjDiff g t (ObjectDiff (od_Type od) (od_Name od) fs' (od_Objects od)))
   \<and> (od_Objects od = [] \<and> od_Type od = diffTypeEdited \<longrightarrow>
        recurseObjDiff g t od
          = map (detailRecord g t (od_Name od))
              (filter (\<lambda>f. fd_Type f = diffTypeEdited) (od_Fields od)))
   \<and> (od_Objects od = [] \<and> od_Type od \<noteq> diffTypeEdited \<longrightarrow> recurseObjDiff g t od = [])"
proof (cases od)
  case (ObjectDiff ty nm fs os)
  show ?thesis
    unfolding ObjectDiff by (auto simp: ownRecords_def fieldLoop_map_filter filter_empty_conv)
qed

theorem object_rule_witness:
  "od_Objects exUneditedParent \<noteq> []
   \<and> recurseObjDiff ''cache'' '''' exUneditedParent
       = [logDiffObj ''cache'' '''' ''resources'' ''cpu'' ''500'' ''1000'']
   \<and> ownRecords ''cache'' '''' exUneditedParent = []
   \<and> od_Objects exObject = [] \<and> od_Type exObject = diffTypeEdited
   \<and> recurseObjDiff ''cache'' ''redis'' exObject
       = [logDiffObj ''cache'' ''redis'' ''resources'' ''cpu'' ''500'' ''1000'']
   \<and> od_Objects (ObjectDiff diffTypeAdded ''resources'' [exField] []) = []
   \<and> od_Type (ObjectDiff diffTypeAdded ''resources'' [exField] []) \<noteq> diffTypeEdited
   \<and> recurseObjDiff ''cache'' ''redis'' (ObjectDiff diffTypeAdded ''resources'' [exField] []) = []"
  using object_rule [of "''cache''" "''''" exUneditedParent "[]"]
    object_rule [of "''cache''" "''redis''" exObject "[]"]
    object_rule [of "''cache''" "''redis''" "ObjectDiff diffTypeAdded ''resources'' [exField] []" "[]"]
  by (simp add: exUneditedParent_def exObject_def exField_def ownRecords_def detailRecord_def)

section \<open>Nodes that are not edited\<close>

text \<open>
  Claim C4, as stated, fails: an object node that is not edited is still descended into
  (the \<^verbatim>\<open>else\<close> branch of \<^verbatim>\<open>recurseObjDiff\<close> does not look at the node's
  classification), so an edited leaf below it is reported. Here the group-level object
  \<open>update\<close> is classified none, and the field of its child \<open>resources\<close> is emitted.
\<close>

theorem unedited_object_descended_counterexample:
  "od_Type exUneditedParent \<noteq> diffTypeEdited
   \<and> od_Objects exUneditedParent = [exObject]
   \<and> tg_Objects exFullGroup = [exUneditedParent]
   \<and> fst (plan (exResp diffTypeEdited [exFullGroup\<lparr>tg_Tasks := []\<rparr>]) None)
       = [logDebug msgTrigger, logDiffObj ''cache'' '''' ''resources'' ''cpu'' ''500'' ''1000'']"
  by (simp add: plan_def planDiff_def exResp_def exFullGroup_def exUneditedParent_def
      exObject_def exField_def)

text \<open>
  Claim C4, amended. Nothing is emitted from below a job diff, a task group or a task
  that is not edited: the decision on a job diff that is not edited does not depend on
  its task groups, and removing a task group or a task that is not edited leaves the
  walk unchanged. An object node that is not edited emits no record for its own fields,
  but the walker does descend into its child objects.
\<close>

theorem unedited_nodes_pruned:
  "(jd_Type (Diff resp) \<noteq> diffTypeEdited \<longrightarrow>
      plan resp None = plan (resp\<lparr>Diff := (Diff resp)\<lparr>jd_TaskGroups := tgs'\<rparr>\<rparr>) None)
   \<and> (tg_Type tg \<noteq> diffTypeEdited \<longrightarrow> groupLoop (pre @ tg # post) = groupLoop (pre @ post))
   \<and> (td_Type t \<noteq> diffTypeEdited \<longrightarrow> taskLoop g (tpre @ t # tpost) = taskLoop g (tpre @ tpost))
   \<and> (od_Type od \<noteq> diffTypeEdited \<longrightarrow>
        ownRecords g' t' od = []
        \<and> recurseObjDiff g' t' od = concat (map (recurseObjDiff g' t') (od_Objects od)))"
proof -
  have "od_Type od \<noteq> diffTypeEdited \<Longrightarrow> ownRecords g' t' od = []"
    by (simp add: ownRecords_def)
  moreover have "recurseObjDiff g' t' od
      = ownRecords g' t' od @ concat (map (recurseObjDiff g' t') (od_Objects od))"
    by (rule recurseObjDiff_own_children)
  ultimately show ?thesis
    by (simp add: plan_def groupLoop_skip taskLoop_skip)
qed

theorem unedited_nodes_pruned_witness:
  "jd_Type (Diff (exResp diffTypeAdded [exGroup])) \<noteq> diffTypeEdited
   \<and> plan (exResp diffTypeAdded [exGroup]) None = plan (exResp diffTypeAdded []) None
   \<and> tg_Type exUneditedGroup \<noteq> diffTypeEdited
   \<and> groupLoop ([exGroup] @ exUneditedGroup # [exApiGroup]) = groupLoop ([exGroup] @ [exApiGroup])
   \<and> td_Type exUneditedTask \<noteq> diffTypeEdited
   \<and> taskLoop ''cache'' ([] @ exUneditedTask # [exTask]) = taskLoop ''cache'' ([] @ [exTask])
   \<and> od_Type exUneditedParent \<noteq> diffTypeEdited
   \<and> ownRecords ''cache'' '''' exUneditedParent = []
   \<and> recurseObjDiff ''cache'' '''' exUneditedParent
       = concat (map (recurseObjDiff ''cache'' '''') (od_Objects exUneditedParent))"
  using unedited_nodes_pruned [of "exResp diffTypeAdded [exGroup]" "[]" exUneditedGroup "[exGroup]"
      "[exApiGroup]" exUneditedTask "''cache''" "[]" "[exTask]" exUneditedParent "''cache''" "''''"]
  by (simp add: exResp_def exUneditedGroup_def exUneditedTask_def exUneditedParent_def)

section \<open>The records of one invocation\<close>

text \<open>
  Claim C5, as stated, fails: on the edited path no record describing the top-level
  outcome is emitted. For the spec's example tree the log is the debug record that
  announces the request, followed by the one detail record of the walk; none of the
  records is an outcome record.
\<close>

theorem edited_path_no_outcome_record_counterexample:
  "fst (plan (exResp diffTypeEdited [exGroup]) None)
     = [logDebug msgTrigger, logDiffObj ''cache'' '''' ''resources'' ''cpu'' ''500'' ''1000'']
   \<and> planDiff (Diff (exResp diffTypeEdited [exGroup]))
     = [logDiffObj ''cache'' '''' ''resources'' ''cpu'' ''500'' ''1000'']
   \<and> length (filter isOutcomeRecord (fst (plan (exResp diffTypeEdited [exGroup]) None))) = 0"
  by (simp add: plan_def exGroup_records logDiffObj_not_outcome)

text \<open>
  Claim C5, amended. Every invocation first emits the debug record announcing the plan
  request. After it, exactly one record describing the outcome is emitted when the
  request failed (error level), when the classification is added (info level) or when
  it is none (error level), and nothing else; when the classification is edited only the
  walker's zero or more detail records follow, with no outcome record; for any other
  classification nothing follows.
\<close>

theorem plan_records:
  "fst (plan resp err) =
     logDebug msgTrigger #
       (if err \<noteq> None then [logError err msgUnable]
        else if jd_Type (Diff resp) = diffTypeAdded then [logInfo msgNewJob]
        else if jd_Type (Diff resp) = diffTypeNone then [logError None msgNoChanges]
        else if jd_Type (Diff resp) = diffTypeEdited then planDiff (Diff resp)
        else [])
   \<and> length (filter isOutcomeRecord (fst (plan resp err))) =
       (if err \<noteq> None \<or> jd_Type (Diff resp) = diffTypeAdded \<or> jd_Type (Diff resp) = diffTypeNone
        then 1 else 0)"
  by (simp add: plan_def planDiff_no_outcome)

theorem plan_records_witness:
  "fst (plan (exResp diffTypeEdited [exFullGroup]) None)
     = [logDebug msgTrigger,
        logDiffObj ''cache'' '''' ''resources'' ''cpu'' ''500'' ''1000'',
        logDiffObj ''cache'' ''redis'' ''resources'' ''cpu'' ''500'' ''1000'']
   \<and> length (filter isOutcomeRecord (fst (plan (exResp diffTypeEdited [exFullGroup]) None))) = 0
   \<and> fst (plan (exResp diffTypeNone [exFullGroup]) None)
       = [logDebug msgTrigger, logError None msgNoChanges]
   \<and> length (filter isOutcomeRecord (fst (plan (exResp diffTypeNone [exFullGroup]) None))) = 1"
  using plan_records [of "exResp diffTypeEdited [exFullGroup]" None]
    plan_records [of "exResp diffTypeNone [exFullGroup]" None]
  by (simp add: exFullGroup_records logDiffObj_not_outcome)

section \<open>Unrecognized classification\<close>

text \<open>
  Claim C6. For a job diff whose top-level classification is none of added, edited and
  none, the decision emits no message about the classification outcome (the log holds
  only the debug record that announces the request) and returns true.
\<close>

theorem unrecognized_classification_silent:
  assumes "jd_Type (Diff resp) \<noteq> diffTypeAdded"
    and "jd_Type (Diff resp) \<noteq> diffTypeEdited"
    and "jd_Type (Diff resp) \<noteq> diffTypeNone"
  shows "plan resp None = ([logDebug msgTrigger], True)
    \<and> filter isOutcomeRecord (fst (plan resp None)) = []"
  using assms by (simp add: plan_def)

theorem unrecognized_classification_silent_witness:
  "jd_Type (Diff (exResp ''Deleted'' [exGroup])) \<noteq> diffTypeAdded
   \<and> jd_Type (Diff (exResp ''Deleted'' [exGroup])) \<noteq> diffTypeEdited
   \<and> jd_Type (Diff (exResp ''Deleted'' [exGroup])) \<noteq> diffTypeNone
   \<and> plan (exResp ''Deleted'' [exGroup]) None = ([logDebug msgTrigger], True)"
  using unrecognized_classification_silent [of "exResp ''Deleted'' [exGroup]"]
  by (simp add: diffTypeAdded_def diffTypeEdited_def diffTypeNone_def)

section \<open>A new job\<close>

text \<open>
  Claim C7. For a job diff classified added, the decision returns true and emits exactly
  one informational record, the one stating that the job is a new addition to the
  cluster; no detail record is in the log, whatever the tree holds.
\<close>

theorem added_job:
  assumes "jd_Type (Diff resp) = diffTypeAdded"
  shows "plan resp None = ([logDebug msgTrigger, logInfo msgNewJob], True)
    \<and> filter isInfo (fst (plan resp None)) = [logInfo msgNewJob]
    \<and> logDiffObj g t obj f old new \<notin> set (fst (plan resp None))"
  using assms by (simp add: plan_def logDiffObj_neq_plan_records)

theorem added_job_witness:
  "jd_Type (Diff (exResp diffTypeAdded [exGroup])) = diffTypeAdded
   \<and> plan (exResp diffTypeAdded [exGroup]) None = ([logDebug msgTrigger, logInfo msgNewJob], True)
   \<and> filter isInfo (fst (plan (exResp diffTypeAdded [exGroup]) None)) = [logInfo msgNewJob]
   \<and> logDiffObj ''cache'' '''' ''resources'' ''cpu'' ''500'' ''1000''
       \<notin> set (fst (plan (exResp diffTypeAdded [exGroup]) None))"
  using added_job [of "exResp diffTypeAdded [exGroup]" "''cache''" "''''" "''resources''"
      "''cpu''" "''500''" "''1000''"]
  by (simp add: logDiffObj_neq_plan_records)

section \<open>The order of the detail records\<close>

text \<open>
  Claim C8. The detail records of the walk follow the tree's declared order (task groups
  in sequence order, group-level objects before tasks, tasks in sequence order, a task's
  objects in sequence order, children depth-first before siblings, fields in declaration
  order): the emitted sequence is an initial segment of the enumeration \<open>declaredOrder\<close>
  of the tree, and it is the whole enumeration when no edited group holds an edited task
  without objects.
\<close>

theorem walk_follows_declared_order:
  "prefix (planDiff d) (declaredOrder d)
   \<and> (\<not> returnsEarly d \<longrightarrow> planDiff d = declaredOrder d)"
  by (simp add: planDiff_def declaredOrder_def returnsEarly_def groupLoop_prefix
      groupLoop_complete)

theorem walk_follows_declared_order_witness:
  "\<not> returnsEarly (Diff (exResp diffTypeEdited [exFullGroup, exApiGroup]))
   \<and> planDiff (Diff (exResp diffTypeEdited [exFullGroup, exApiGroup]))
     = [logDiffObj ''cache'' '''' ''resources'' ''cpu'' ''500'' ''1000'',
        logDiffObj ''cache'' ''redis'' ''resources'' ''cpu'' ''500'' ''1000'',
        logDiffObj ''api'' '''' ''resources'' ''cpu'' ''500'' ''1000'']"
proof -
  have h: "\<not> returnsEarly (Diff (exResp diffTypeEdited [exFullGroup, exApiGroup]))"
    by (simp add: returnsEarly_def exFullGroup_def exApiGroup_def exTask_def emptyEditedTask_def
        exObject_def)
  from walk_follows_declared_order [of "Diff (exResp diffTypeEdited [exFullGroup, exApiGroup])"] h
  have "planDiff (Diff (exResp diffTypeEdited [exFullGroup, exApiGroup]))
      = declaredOrder (Diff (exResp diffTypeEdited [exFullGroup, exApiGroup]))"
    by blast
  with h show ?thesis by (simp add: exOrder_records)
qed

section \<open>The message of a detail record\<close>

text \<open>
  Claim C9, as stated, fails: the message of a detail record starts with the component
  tag \<^verbatim>\<open>levant/plan: \<close>, which the stated templates lack. For group \<open>cache\<close>, no task,
  object \<open>resources\<close> and field \<open>cpu\<close> changed from 500 to 1000 the message is not the
  line the spec gives.
\<close>

theorem message_without_prefix_counterexample:
  "lr_msg (logDiffObj ''cache'' '''' ''resources'' ''cpu'' ''500'' ''1000'')
     = ''levant/plan: group cache plan indicates change of resources:cpu from 500 to 1000''
   \<and> lr_msg (logDiffObj ''cache'' '''' ''resources'' ''cpu'' ''500'' ''1000'')
     \<noteq> ''group cache plan indicates change of resources:cpu from 500 to 1000''"
  by (simp add: logDiffObj_def logInfo_def logLine_cases lEnd_def)

text \<open>
  Claim C9, amended. Every detail record is informational and its message is the tag
  \<^verbatim>\<open>levant/plan: \<close> followed by: the group segment, the task segment and the change
  when both context strings are non-empty; the group segment and the change when only
  the group is non-empty; the change alone when both are empty. The group segment always
  comes before the task segment.
\<close>

theorem message_format:
  "lr_level (logDiffObj g t obj f old new) = Info
   \<and> (g \<noteq> '''' \<and> t \<noteq> '''' \<longrightarrow>
        lr_msg (logDiffObj g t obj f old new)
          = ''levant/plan: '' @ ''group '' @ g @ '' and task '' @ t
            @ '' plan indicates change of '' @ obj @ '':'' @ f @ '' from '' @ old @ '' to '' @ new)
   \<and> (g \<noteq> '''' \<and> t = '''' \<longrightarrow>
        lr_msg (logDiffObj g t obj f old new)
          = ''levant/plan: '' @ ''group '' @ g
            @ '' plan indicates change of '' @ obj @ '':'' @ f @ '' from '' @ old @ '' to '' @ new)
   \<and> (g = '''' \<and> t = '''' \<longrightarrow>
        lr_msg (logDiffObj g t obj f old new)
          = ''levant/plan: ''
            @ ''plan indicates change of '' @ obj @ '':'' @ f @ '' from '' @ old @ '' to '' @ new)"
  by (simp add: logDiffObj_def logInfo_def logLine_cases lEnd_def)

theorem message_format_witness:
  "lr_msg (logDiffObj ''cache'' ''redis'' ''resources'' ''cpu'' ''500'' ''1000'')
     = ''levant/plan: group cache and task redis plan indicates change of resources:cpu from 500 to 1000''
   \<and> lr_msg (logDiffObj ''cache'' '''' ''resources'' ''cpu'' ''500'' ''1000'')
     = ''levant/plan: group cache plan indicates change of resources:cpu from 500 to 1000''
   \<and> lr_msg (logDiffObj '''' '''' ''resources'' ''cpu'' ''500'' ''1000'')
     = ''levant/plan: plan indicates change of resources:cpu from 500 to 1000''"
  using message_format [of "''cache''" "''redis''" "''resources''" "''cpu''" "''500''" "''1000''"]
    message_format [of "''cache''" "''''" "''resources''" "''cpu''" "''500''" "''1000''"]
    message_format [of "''''" "''''" "''resources''" "''cpu''" "''500''" "''1000''"]
  by simp

end
